theory Spec2Isabelle
  imports Complex_Main "HOL-Library.Word"
begin

section \<open>Strings of the program\<close>

text \<open>
  A JavaScript string is a sequence of UTF-16 code units; \<open>length\<close>, \<open>startsWith\<close>,
  \<open>substring\<close>, \<open>split\<close> and \<open>trim\<close> all work on code units.  A string is therefore a
  list of 16-bit words.  \<open>js\<close> turns an ASCII literal into such a string.
\<close>

type_synonym jsstring = "16 word list"

definition js :: "string \<Rightarrow> jsstring" where
  "js s = map of_char s"

text \<open>\<^verbatim>\<open>s.startsWith(p)\<close>\<close>

definition startsWith :: "jsstring \<Rightarrow> jsstring \<Rightarrow> bool" where
  "startsWith s p = (take (length p) s = p)"

text \<open>
  \<^verbatim>\<open>s.substring(a, b)\<close>: both indices are clamped to \<open>[0, length]\<close> and swapped when the
  first is the larger one.  \<^verbatim>\<open>s.substring(a)\<close> is \<open>substring s a (length s)\<close>.
\<close>

definition clamp_index :: "jsstring \<Rightarrow> int \<Rightarrow> nat" where
  "clamp_index s i = (if i < 0 then 0 else min (nat i) (length s))"

definition substring :: "jsstring \<Rightarrow> int \<Rightarrow> int \<Rightarrow> jsstring" where
  "substring s a b =
     (let i = clamp_index s a; j = clamp_index s b;
          lo = min i j; hi = max i j
      in take (hi - lo) (drop lo s))"

definition substring_from :: "jsstring \<Rightarrow> int \<Rightarrow> jsstring" where
  "substring_from s a = substring s a (int (length s))"

text \<open>
  The code units that \<^verbatim>\<open>trim()\<close> removes: ECMAScript's WhiteSpace and LineTerminator
  (TAB, LF, VT, FF, CR, SP, NBSP, U+1680, U+2000..U+200A, U+2028, U+2029, U+202F,
  U+205F, U+3000, U+FEFF).
\<close>

definition is_space :: "16 word \<Rightarrow> bool" where
  "is_space c =
     (c = 0x09 \<or> c = 0x0A \<or> c = 0x0B \<or> c = 0x0C \<or> c = 0x0D \<or> c = 0x20 \<or> c = 0xA0
      \<or> c = 0x1680 \<or> (0x2000 \<le> c \<and> c \<le> 0x200A) \<or> c = 0x2028 \<or> c = 0x2029
      \<or> c = 0x202F \<or> c = 0x205F \<or> c = 0x3000 \<or> c = 0xFEFF)"

definition trim :: "jsstring \<Rightarrow> jsstring" where
  "trim s = rev (dropWhile is_space (rev (dropWhile is_space s)))"

text \<open>\<^verbatim>\<open>s.split('\n')\<close>: the pieces between line feeds, in order; never the empty list.\<close>

fun split_lines :: "jsstring \<Rightarrow> jsstring list" where
  "split_lines [] = [[]]"
| "split_lines (c # cs) =
     (if c = 0x0A then [] # split_lines cs
      else (case split_lines cs of
              l # ls \<Rightarrow> (c # l) # ls
            | [] \<Rightarrow> [[c]]))"

text \<open>
  JavaScript truthiness of a value that is a string, \<^verbatim>\<open>null\<close> or \<^verbatim>\<open>undefined\<close>:
  \<open>None\<close> stands for \<^verbatim>\<open>null\<close>/\<^verbatim>\<open>undefined\<close>, and the empty string is falsy as well.
\<close>

definition truthy :: "jsstring option \<Rightarrow> bool" where
  "truthy v = (case v of None \<Rightarrow> False | Some s \<Rightarrow> s \<noteq> [])"

section \<open>Events\<close>

text \<open>
  Everything the process does to the outside world is recorded, oldest first, in a trace
  that each operation receives and returns extended.  A \<open>Log\<close> event stands for one call
  of \<^verbatim>\<open>logger.info\<close> or \<^verbatim>\<open>logger.error\<close> and carries the message template of the source
  (interpolated values are not expanded).  \<open>Sleep ms\<close> is
  \<^verbatim>\<open>await new Promise(resolve => setTimeout(resolve, ms))\<close>.  \<open>Ext\<close> is a call that leaves
  the process.  \<open>Enter\<close> marks the invocation of one of the methods of \<^verbatim>\<open>IrysAutomation\<close>;
  the source has no such effect, the mark is bookkeeping that lets ordering properties be
  stated on the trace.
\<close>

datatype level = Info | Error

text \<open>The wallet record of \<^verbatim>\<open>loadWallets\<close>.  Its third field, the ethers wallet object, is the
  signing capability of the same private key; signing is an external call below.\<close>

record wallet =
  address :: jsstring
  privateKey :: jsstring

text \<open>The transaction object built by \<^verbatim>\<open>payForGame\<close>.\<close>

record tx =
  tx_to :: jsstring
  tx_value :: nat
  tx_gasLimit :: nat
  tx_gasPrice :: nat
  tx_nonce :: nat
  tx_chainId :: nat

text \<open>
  The external calls, with the arguments the program passes:
  \<open>CreateTask apiKey websiteURL websiteKey\<close> and \<open>GetTaskResult apiKey taskId\<close> are the two
  requests to the captcha solver; \<open>FaucetPost captchaToken walletAddress\<close> is the request to
  the faucet endpoint; \<open>GetTransactionCount address\<close>, \<open>EstimateGas from to value\<close>,
  \<open>GetGasPrice\<close>, \<open>SendTransaction signedTx\<close> and \<open>WaitReceipt hash\<close> are the calls to the
  chain provider; \<open>SignTransaction privateKey tx\<close> is the signing of a transaction by the
  wallet object; \<open>MathRandom\<close>, \<open>DateNow\<close> and \<open>DateISO\<close> are \<^verbatim>\<open>Math.random()\<close>,
  \<^verbatim>\<open>Date.now()\<close> and \<^verbatim>\<open>new Date().toISOString()\<close>; \<open>WithWallet privateKey\<close>,
  \<open>GetPrice byteLength\<close> and \<open>Upload data tags\<close> are the construction of the uploader and its
  two requests to the storage network; \<open>Countdown hours\<close> is the wait between two cycles.
\<close>

datatype call =
    CreateTask jsstring jsstring jsstring
  | GetTaskResult jsstring jsstring
  | FaucetPost jsstring jsstring
  | GetTransactionCount jsstring
  | EstimateGas jsstring jsstring nat
  | GetGasPrice
  | SignTransaction jsstring tx
  | SendTransaction jsstring
  | WaitReceipt jsstring
  | MathRandom
  | WithWallet jsstring
  | DateNow
  | DateISO
  | GetPrice nat
  | Upload jsstring "(jsstring \<times> jsstring) list"
  | Countdown int

datatype step =
    CAPTCHA
  | CLAIM jsstring
  | PAY jsstring
  | PLAY
  | PUBLISH jsstring int
  | GAME jsstring

datatype event =
    Log level string
  | Sleep int
  | Ext call
  | Enter step

type_synonym trace = "event list"

section \<open>The outside world\<close>

text \<open>
  What an external call answers is not the program's choice.  The environment gives, for
  each kind of call, the answer as a function of the whole trace up to and including the
  call, so that an answer may depend on everything that happened before.  \<open>None\<close> is a
  call that throws (a transport error, a rejected promise, or a response without the
  \<^verbatim>\<open>data\<close> object the code dereferences).
\<close>

text \<open>\<^verbatim>\<open>result.data\<close> of a \<^verbatim>\<open>getTaskResult\<close> response: the status, and
  \<^verbatim>\<open>solution?.token\<close> (\<open>None\<close> when the solution or its token is missing).\<close>

record task_result =
  status :: "jsstring option"
  token :: "jsstring option"

text \<open>\<^verbatim>\<open>response.data\<close> of the faucet, when it is an object: whether \<^verbatim>\<open>success\<close> is
  truthy, and \<^verbatim>\<open>data\<close> (\<open>None\<close> when the field is missing or null, else its
  \<^verbatim>\<open>transactionHash\<close>, which may itself be missing).\<close>

record faucet_result =
  success :: bool
  data :: "jsstring option option"

record env =
  createTask_response :: "trace \<Rightarrow> jsstring option option"
  getTaskResult_response :: "trace \<Rightarrow> task_result option"
  faucet_response :: "trace \<Rightarrow> faucet_result option option"
  getTransactionCount_response :: "trace \<Rightarrow> nat option"
  estimateGas_response :: "trace \<Rightarrow> nat option"
  getGasPrice_response :: "trace \<Rightarrow> nat option"
  signTransaction_response :: "trace \<Rightarrow> jsstring option"
  sendTransaction_response :: "trace \<Rightarrow> jsstring option"
  wait_response :: "trace \<Rightarrow> int option"
  random_response :: "trace \<Rightarrow> real"
  withWallet_response :: "trace \<Rightarrow> unit option"
  now_response :: "trace \<Rightarrow> int"
  iso_response :: "trace \<Rightarrow> jsstring"
  getPrice_response :: "trace \<Rightarrow> nat option"
  upload_response :: "trace \<Rightarrow> jsstring option"
  to_double :: "real \<Rightarrow> real"

text \<open>
  The last field is the arithmetic of the platform, not a call: \<open>to_double env x\<close> is the
  double that a product whose exact value is \<open>x\<close> is rounded to.
\<close>

text \<open>
  The configuration tree read from \<^verbatim>\<open>config.yaml\<close>, with the sections the code reads
  present.  \<^verbatim>\<open>games_per_wallet\<close> is \<open>None\<close> when the key is absent or null.  Numbers are
  integers.
\<close>

record config =
  captcha_api_key :: jsstring
  faucet_enabled :: bool
  game_enabled :: bool
  games_per_wallet :: "int option"
  hours_between_runs :: int
  delay_between_claims :: int
  min_score :: int
  max_score :: int
  min_play_time :: int
  max_play_time :: int
  delay_between_games :: int

text \<open>\<^verbatim>\<open>NETWORK_SETTINGS\<close>; the payment amount is 0.005 ether in wei, as
  \<^verbatim>\<open>ethers.utils.parseEther\<close> returns it.\<close>

definition site_key :: jsstring where
  "site_key = js ''0x4AAAAAAA6vnrvBCtS4FAl-''"

definition contract_address :: jsstring where
  "contract_address = js ''0xEFeB425135d5cDBEfFA5c9B8C16E81C7833dA02E''"

definition chain_id :: nat where
  "chain_id = 1270"

definition gamePaymentValue :: nat where
  "gamePaymentValue = 5000000000000000"

section \<open>Loading the wallets\<close>

text \<open>
  \<^verbatim>\<open>loadWallets\<close> (lines 73-107).  Two things come from outside: \<open>file\<close> is what
  \<^verbatim>\<open>fs.readFileSync(filePath, 'utf8')\<close> returns (\<open>None\<close> when it throws), and
  \<open>derive key\<close> is the address of \<^verbatim>\<open>new ethers.Wallet(key, provider)\<close> (\<open>None\<close> when the
  constructor throws on a malformed key).

  The \<^verbatim>\<open>for\<close> loop runs inside the \<^verbatim>\<open>try\<close> block; \<open>loadWallets_loop\<close> returns \<open>None\<close> when an
  exception leaves the loop, and the single \<^verbatim>\<open>catch\<close> of \<^verbatim>\<open>loadWallets\<close> handles it.
\<close>

fun loadWallets_loop ::
  "(jsstring \<Rightarrow> jsstring option) \<Rightarrow> jsstring list \<Rightarrow> wallet list \<Rightarrow> wallet list option" where
  "loadWallets_loop derive [] wallets = Some wallets"
| "loadWallets_loop derive (line # lines) wallets =
     (let trimmedLine = trim line in
      if trimmedLine = [] \<or> startsWith trimmedLine (js ''#'') then
        loadWallets_loop derive lines wallets
      else
        let privateKey =
              (if startsWith trimmedLine (js ''0x'') then trimmedLine
               else js ''0x'' @ trimmedLine)
        in case derive privateKey of
             None \<Rightarrow> None
           | Some addr \<Rightarrow>
               loadWallets_loop derive lines
                 (wallets @ [\<lparr>address = addr, privateKey = privateKey\<rparr>]))"

definition loadWallets ::
  "(jsstring \<Rightarrow> jsstring option) \<Rightarrow> jsstring option \<Rightarrow> trace \<Rightarrow> wallet list \<times> trace" where
  "loadWallets derive file tr =
     (case file of
        None \<Rightarrow> ([], tr @ [Log Error ''Error loading private keys''])
      | Some fileContents \<Rightarrow>
          (case loadWallets_loop derive (split_lines fileContents) [] of
             None \<Rightarrow> ([], tr @ [Log Error ''Error loading private keys''])
           | Some wallets \<Rightarrow>
               (wallets, tr @ [Log Info ''Loaded ${wallets.length} wallets from private keys''])))"

section \<open>The captcha solver client\<close>

text \<open>
  What \<^verbatim>\<open>getCaptchaToken\<close> returns: \<^verbatim>\<open>null\<close>, or \<^verbatim>\<open>result.data.solution?.token\<close>, which is
  \<^verbatim>\<open>undefined\<close> or a string.
\<close>

datatype captcha_token = Null | Undefined | Token jsstring

fun truthy_token :: "captcha_token \<Rightarrow> bool" where
  "truthy_token (Token t) = (t \<noteq> [])"
| "truthy_token Null = False"
| "truthy_token Undefined = False"

fun the_token :: "captcha_token \<Rightarrow> jsstring" where
  "the_token (Token t) = t"
| "the_token Null = []"
| "the_token Undefined = []"

definition maxAttempts :: nat where
  "maxAttempts = 15"

text \<open>
  The \<^verbatim>\<open>while (attempts < maxAttempts)\<close> loop of lines 139-161.  The first component of
  the result is \<open>None\<close> when an exception leaves the loop.
\<close>

function poll_loop ::
  "env \<Rightarrow> config \<Rightarrow> jsstring \<Rightarrow> nat \<Rightarrow> trace \<Rightarrow> captcha_token option \<times> trace" where
  "poll_loop env cfg taskId attempts tr =
     (if attempts < maxAttempts then
        let tr1 = tr @ [Ext (GetTaskResult (captcha_api_key cfg) taskId)] in
        case getTaskResult_response env tr1 of
          None \<Rightarrow> (None, tr1)
        | Some result \<Rightarrow>
            if status result = Some (js ''ready'') then
              (Some (case token result of None \<Rightarrow> Undefined | Some t \<Rightarrow> Token t),
               tr1 @ [Log Info ''Captcha solution received''])
            else if status result = Some (js ''failed'') then
              (Some Null, tr1 @ [Log Error ''Captcha task failed: ${JSON.stringify(result.data)}''])
            else
              poll_loop env cfg taskId (attempts + 1) (tr1 @ [Sleep 2000])
      else (Some Null, tr @ [Log Error ''Captcha solving timed out'']))"
  by pat_completeness auto
termination
  by (relation "measure (\<lambda>(env, cfg, taskId, attempts, tr). maxAttempts - attempts)") auto

text \<open>\<^verbatim>\<open>getCaptchaToken\<close> (lines 109-169).\<close>

definition getCaptchaToken :: "env \<Rightarrow> config \<Rightarrow> trace \<Rightarrow> captcha_token \<times> trace" where
  "getCaptchaToken env cfg tr =
     (let tr1 = tr @ [Enter CAPTCHA,
                      Ext (CreateTask (captcha_api_key cfg) (js ''https://irys.xyz/faucet'') site_key)]
      in case createTask_response env tr1 of
           None \<Rightarrow> (Null, tr1 @ [Log Error ''Error solving captcha''])
         | Some taskId \<Rightarrow>
             if \<not> truthy taskId then
               (Null, tr1 @ [Log Error ''Failed to create captcha task: ${JSON.stringify(createTaskResponse.data)}''])
             else
               (case poll_loop env cfg (the taskId) 0
                       (tr1 @ [Log Info ''Created captcha task: ${taskId}'']) of
                  (None, tr2) \<Rightarrow> (Null, tr2 @ [Log Error ''Error solving captcha''])
                | (Some r, tr2) \<Rightarrow> (r, tr2)))"

section \<open>The faucet claimer\<close>

text \<open>
  \<^verbatim>\<open>claimFaucet\<close> (lines 171-208).  The success branch builds its log message from
  \<^verbatim>\<open>result.data.transactionHash\<close>; when \<^verbatim>\<open>result.data\<close> is missing that read throws inside
  the \<^verbatim>\<open>try\<close>, and the \<^verbatim>\<open>catch\<close> returns \<^verbatim>\<open>false\<close>.
\<close>

definition claimFaucet :: "env \<Rightarrow> config \<Rightarrow> jsstring \<Rightarrow> trace \<Rightarrow> bool \<times> trace" where
  "claimFaucet env cfg walletAddress tr =
     (let (captchaToken, tr1) = getCaptchaToken env cfg (tr @ [Enter (CLAIM walletAddress)]) in
      if \<not> truthy_token captchaToken then
        (False, tr1 @ [Log Error ''Failed to get captcha token''])
      else
        let tr2 = tr1 @ [Ext (FaucetPost (the_token captchaToken) walletAddress)] in
        case faucet_response env tr2 of
          None \<Rightarrow> (False, tr2 @ [Log Error ''Error claiming faucet for ${walletAddress}''])
        | Some None \<Rightarrow>
            (False, tr2 @ [Log Error ''Failed to claim faucet for ${walletAddress}: ${JSON.stringify(result)}''])
        | Some (Some result) \<Rightarrow>
            if success result then
              (case data result of
                 None \<Rightarrow> (False, tr2 @ [Log Error ''Error claiming faucet for ${walletAddress}''])
               | Some transactionHash \<Rightarrow>
                   (True, tr2 @ [Log Info ''Faucet claim successful for ${walletAddress}. TX: ${result.data.transactionHash}'']))
            else
              (False, tr2 @ [Log Error ''Failed to claim faucet for ${walletAddress}: ${JSON.stringify(result)}'']))"

section \<open>The payment submitter\<close>

text \<open>
  Line 230, \<^verbatim>\<open>gasLimit.mul(110).div(100)\<close>.  The estimate is the unsigned quantity that
  \<^verbatim>\<open>eth_estimateGas\<close> returns, held in an arbitrary-precision \<^verbatim>\<open>BigNumber\<close>, whose \<^verbatim>\<open>div\<close> is
  integer division.
\<close>

definition bufferedGasLimit :: "nat \<Rightarrow> nat" where
  "bufferedGasLimit gasLimit = (gasLimit * 110) div 100"

text \<open>The \<^verbatim>\<open>catch\<close> block of \<^verbatim>\<open>payForGame\<close>.\<close>

definition pay_catch :: "trace \<Rightarrow> jsstring option \<times> trace" where
  "pay_catch tr = (None, tr @ [Log Error ''Error paying for game''])"

text \<open>\<^verbatim>\<open>payForGame\<close> (lines 210-267); the result is the transaction hash or \<^verbatim>\<open>null\<close>.\<close>

definition payForGame :: "env \<Rightarrow> wallet \<Rightarrow> trace \<Rightarrow> jsstring option \<times> trace" where
  "payForGame env walletInfo tr =
     (let tr1 = tr @ [Enter (PAY (address walletInfo)),
                      Ext (GetTransactionCount (address walletInfo))] in
      case getTransactionCount_response env tr1 of
        None \<Rightarrow> pay_catch tr1
      | Some nonce \<Rightarrow>
     (let tr2 = tr1 @ [Ext (EstimateGas (address walletInfo) contract_address gamePaymentValue)] in
      case estimateGas_response env tr2 of
        None \<Rightarrow> pay_catch tr2
      | Some gasLimit \<Rightarrow>
     (let tr3 = tr2 @ [Ext GetGasPrice] in
      case getGasPrice_response env tr3 of
        None \<Rightarrow> pay_catch tr3
      | Some gasPrice \<Rightarrow>
     (let tx = \<lparr>tx_to = contract_address, tx_value = gamePaymentValue,
                tx_gasLimit = bufferedGasLimit gasLimit, tx_gasPrice = gasPrice,
                tx_nonce = nonce, tx_chainId = chain_id\<rparr>;
          tr4 = tr3 @ [Log Info ''Gas Details for wallet ${address}:'',
                       Log Info ''- Gas Limit: ${bufferedGasLimit.toString()}'',
                       Log Info ''- Gas Price: ${gasPrice.toString()} wei'',
                       Log Info ''- Estimated Total Gas Cost: ${bufferedGasLimit.mul(gasPrice).toString()} wei'',
                       Ext (SignTransaction (privateKey walletInfo) tx)] in
      case signTransaction_response env tr4 of
        None \<Rightarrow> pay_catch tr4
      | Some signedTx \<Rightarrow>
     (let tr5 = tr4 @ [Ext (SendTransaction signedTx)] in
      case sendTransaction_response env tr5 of
        None \<Rightarrow> pay_catch tr5
      | Some hash \<Rightarrow>
     (let tr6 = tr5 @ [Log Info ''Payment transaction sent: ${txResponse.hash}'',
                       Ext (WaitReceipt hash)] in
      case wait_response env tr6 of
        None \<Rightarrow> pay_catch tr6
      | Some receipt_status \<Rightarrow>
          if receipt_status = 1 then
            (Some hash, tr6 @ [Log Info ''Payment confirmed for wallet ${address}''])
          else
            (None, tr6 @ [Log Error ''Payment failed for wallet ${address}''])))))))"

section \<open>The game session simulator\<close>



text \<open>
  Lines 273 and 278, \<^verbatim>\<open>Math.floor(Math.random() * (hi - lo + 1)) + lo\<close>, with the value of
  \<^verbatim>\<open>Math.random()\<close> as \<open>rnd\<close> and the rounding of the product as \<open>fl\<close>.
\<close>

definition draw :: "(real \<Rightarrow> real) \<Rightarrow> real \<Rightarrow> int \<Rightarrow> int \<Rightarrow> int" where
  "draw fl rnd lo hi = \<lfloor>fl (rnd * real_of_int (hi - lo + 1))\<rfloor> + lo"

text \<open>\<^verbatim>\<open>simulateSnakeGame\<close> (lines 269-286); the promise resolves with the score after
  \<^verbatim>\<open>gameTime * 1000\<close> milliseconds.\<close>

definition simulateSnakeGame :: "env \<Rightarrow> config \<Rightarrow> trace \<Rightarrow> int \<times> trace" where
  "simulateSnakeGame env cfg tr =
     (let tr1 = tr @ [Enter PLAY, Ext MathRandom];
          score = draw (to_double env) (random_response env tr1) (min_score cfg) (max_score cfg);
          tr2 = tr1 @ [Ext MathRandom];
          gameTime = draw (to_double env) (random_response env tr2)
                       (min_play_time cfg) (max_play_time cfg)
      in (score,
          tr2 @ [Log Info ''Simulating Snake game for ${gameTime} seconds, aiming for score ${score}'',
                 Sleep (gameTime * 1000)]))"

section \<open>The score publisher\<close>

text \<open>\<^verbatim>\<open>n.toString()\<close> for an integer: decimal digits, with a minus sign when negative.\<close>

fun digits :: "nat \<Rightarrow> jsstring" where
  "digits n = (if n < 10 then [48 + of_nat n] else digits (n div 10) @ [48 + of_nat (n mod 10)])"

definition toString :: "int \<Rightarrow> jsstring" where
  "toString n = (if n < 0 then js ''-'' @ digits (nat (- n)) else digits (nat n))"

text \<open>Lines 305-307.\<close>

definition shortenedAddress :: "jsstring \<Rightarrow> jsstring" where
  "shortenedAddress addr =
     (if startsWith addr (js ''0x'') \<and> length addr > 10 then
        substring addr 0 6 @ js ''...'' @ substring_from addr (int (length addr) - 4)
      else addr)"

text \<open>Lines 308-318.\<close>

definition score_tags :: "jsstring \<Rightarrow> int \<Rightarrow> int \<Rightarrow> (jsstring \<times> jsstring) list" where
  "score_tags addr score timestamp =
     [(js ''Content-Type'', js ''application/json''),
      (js ''Application-Id'', js ''Irys-Arcade''),
      (js ''Score-Entry'', js ''true''),
      (js ''Game-Name'', js ''snake''),
      (js ''Player-Wallet'', addr),
      (js ''Player-Name'', shortenedAddress addr),
      (js ''Score'', toString score),
      (js ''Game-Version'', js ''1.0''),
      (js ''Timestamp'', toString timestamp)]"

text \<open>Lines 298-302, \<^verbatim>\<open>JSON.stringify({game: 'snake', score: score, date: ...})\<close>; the date
  is an ISO timestamp, which needs no escaping.\<close>

definition scoreData :: "int \<Rightarrow> jsstring \<Rightarrow> jsstring" where
  \<open>scoreData score date =
     js ''{"game":"snake","score":'' @ toString score @ js '',"date":"'' @ date @ js ''"}''\<close>

text \<open>\<^verbatim>\<open>Buffer.from(s).byteLength\<close>: the length of the UTF-8 encoding, in which a surrogate
  pair takes four bytes and a lone surrogate three.\<close>

fun byteLength :: "jsstring \<Rightarrow> nat" where
  "byteLength [] = 0"
| "byteLength [c] = (if c < 0x80 then 1 else if c < 0x800 then 2 else 3)"
| "byteLength (c # d # cs) =
     (if c < 0x80 then 1 + byteLength (d # cs)
      else if c < 0x800 then 2 + byteLength (d # cs)
      else if 0xD800 \<le> c \<and> c < 0xDC00 \<and> 0xDC00 \<le> d \<and> d < 0xE000 then 4 + byteLength cs
      else 3 + byteLength (d # cs))"

text \<open>
  \<^verbatim>\<open>submitGameScore\<close> (lines 288-343).  The upload resolves with the storage network's
  receipt object, so reading \<^verbatim>\<open>response.id\<close> does not throw.
\<close>

definition submitGameScore :: "env \<Rightarrow> wallet \<Rightarrow> int \<Rightarrow> trace \<Rightarrow> bool \<times> trace" where
  "submitGameScore env walletInfo score tr =
     (let tr1 = tr @ [Enter (PUBLISH (address walletInfo) score),
                      Log Info ''Initializing Irys uploader for ${address}'',
                      Ext (WithWallet (privateKey walletInfo))] in
      case withWallet_response env tr1 of
        None \<Rightarrow> (False, tr1 @ [Log Error ''Error submitting game score''])
      | Some irysUploader \<Rightarrow>
     (let tr2 = tr1 @ [Ext DateNow];
          timestamp = now_response env tr2;
          tr3 = tr2 @ [Ext DateISO];
          payload = scoreData score (iso_response env tr3);
          tags = score_tags (address walletInfo) score timestamp;
          tr4 = tr3 @ [Log Info ''Preparing to upload score ${score} for wallet ${address}'',
                       Ext (GetPrice (byteLength payload))] in
      case getPrice_response env tr4 of
        None \<Rightarrow> (False, tr4 @ [Log Error ''Error during Irys upload''])
      | Some price \<Rightarrow>
     (let tr5 = tr4 @ [Log Info ''Price for uploading score: ${price}'',
                       Ext (Upload payload tags)] in
      case upload_response env tr5 of
        None \<Rightarrow> (False, tr5 @ [Log Error ''Error during Irys upload''])
      | Some txId \<Rightarrow>
          (True, tr5 @ [Log Info ''Score ${score} successfully submitted for wallet ${address}. Transaction ID: ${txId}'']))))"

section \<open>The wallet pipeline orchestrator\<close>

text \<open>
  \<^verbatim>\<open>playGameForWallet\<close> (lines 345-376).  \<^verbatim>\<open>payForGame\<close> and \<^verbatim>\<open>submitGameScore\<close> catch their
  own errors and \<^verbatim>\<open>simulateSnakeGame\<close> does not throw on a configuration with a
  \<^verbatim>\<open>game\<close> section, so the \<^verbatim>\<open>catch\<close> block of this method is never entered.
\<close>

definition playGameForWallet :: "env \<Rightarrow> config \<Rightarrow> wallet \<Rightarrow> trace \<Rightarrow> bool \<times> trace" where
  "playGameForWallet env cfg walletInfo tr =
     (let tr1 = tr @ [Enter (GAME (address walletInfo)),
                      Log Info ''Starting game cycle for wallet ${address}''];
          (paymentTx, tr2) = payForGame env walletInfo tr1 in
      if \<not> truthy paymentTx then
        (False, tr2 @ [Log Error ''Failed to pay for game for wallet ${address}''])
      else
        let tr3 = tr2 @ [Sleep 5000];
            (score, tr4) = simulateSnakeGame env cfg tr3;
            (submitted, tr5) = submitGameScore env walletInfo score tr4 in
        if submitted then
          (True, tr5 @ [Log Info ''Game cycle completed successfully for wallet ${address} with score ${score}''])
        else
          (False, tr5 @ [Log Error ''Failed to submit score for wallet ${address}'']))"

section \<open>The run scheduler\<close>

text \<open>Line 409, \<^verbatim>\<open>this.config.general.games_per_wallet || 1\<close>.\<close>

definition gamesPerWallet :: "config \<Rightarrow> int" where
  "gamesPerWallet cfg =
     (case games_per_wallet cfg of
        None \<Rightarrow> 1
      | Some n \<Rightarrow> if n = 0 then 1 else n)"

text \<open>
  The \<^verbatim>\<open>for (let gameNum = 1; gameNum <= gamesPerWallet; gameNum++)\<close> loop of lines
  438-455, started at any \<open>gameNum\<close>; the result is the updated \<^verbatim>\<open>gameSuccesses\<close> counter.
\<close>

function game_loop ::
  "env \<Rightarrow> config \<Rightarrow> wallet \<Rightarrow> int \<Rightarrow> nat \<Rightarrow> trace \<Rightarrow> nat \<times> trace" where
  "game_loop env cfg wallet gameNum gameSuccesses tr =
     (if gameNum \<le> gamesPerWallet cfg then
        let (gameCompleted, tr1) =
              playGameForWallet env cfg wallet
                (tr @ [Log Info ''Starting game ${gameNum}/${gamesPerWallet} for wallet ${address}'']) in
        if gameCompleted then
          game_loop env cfg wallet (gameNum + 1) (gameSuccesses + 1)
            (if gameNum < gamesPerWallet cfg
             then tr1 @ [Sleep (delay_between_games cfg * 1000)]
             else tr1)
        else
          (gameSuccesses,
           tr1 @ [Log Error ''Game ${gameNum}/${gamesPerWallet} failed for wallet ${address}''])
      else (gameSuccesses, tr))"
  by pat_completeness auto
termination
  by (relation "measure (\<lambda>(env, cfg, wallet, gameNum, gameSuccesses, tr).
                   nat (gamesPerWallet cfg + 1 - gameNum))") auto

text \<open>The body of the \<^verbatim>\<open>for\<close> loop over the wallets (lines 417-456), for one wallet; the
  counters are \<^verbatim>\<open>faucetSuccesses\<close> and \<^verbatim>\<open>gameSuccesses\<close>.\<close>

definition process_wallet ::
  "env \<Rightarrow> config \<Rightarrow> wallet \<Rightarrow> nat \<times> nat \<times> trace \<Rightarrow> nat \<times> nat \<times> trace" where
  "process_wallet env cfg wallet st =
     (let (faucetSuccesses, gameSuccesses, tr) = st;
          tr1 = tr @ [Log Info ''Processing wallet ${i + 1}/${this.wallets.length}: ${address}''];
          (faucetSuccesses', tr2) =
            (if faucet_enabled cfg then
               let (faucetClaimed, tr') =
                     claimFaucet env cfg (address wallet)
                       (tr1 @ [Log Info ''Attempting faucet claim for ${address}'']) in
               if faucetClaimed then
                 (faucetSuccesses + 1, tr' @ [Sleep (delay_between_claims cfg * 1000)])
               else (faucetSuccesses, tr')
             else (faucetSuccesses, tr1));
          (gameSuccesses', tr3) =
            (if game_enabled cfg then
               game_loop env cfg wallet 1 gameSuccesses
                 (tr2 @ [Log Info ''Starting ${gamesPerWallet} games for wallet ${address}''])
             else (gameSuccesses, tr2))
      in (faucetSuccesses', gameSuccesses', tr3))"

text \<open>The loop over \<^verbatim>\<open>this.wallets\<close>, in list order.\<close>

fun wallet_loop ::
  "env \<Rightarrow> config \<Rightarrow> wallet list \<Rightarrow> nat \<times> nat \<times> trace \<Rightarrow> nat \<times> nat \<times> trace" where
  "wallet_loop env cfg [] st = st"
| "wallet_loop env cfg (wallet # wallets) st =
     wallet_loop env cfg wallets (process_wallet env cfg wallet st)"

text \<open>One pass through the body of \<^verbatim>\<open>while (true)\<close> (lines 407-471).  The countdown to the
  next run is one external call.\<close>

definition run_cycle :: "env \<Rightarrow> config \<Rightarrow> wallet list \<Rightarrow> trace \<Rightarrow> trace" where
  "run_cycle env cfg wallets tr =
     (let (faucetSuccesses, gameSuccesses, tr1) = wallet_loop env cfg wallets (0, 0, tr);
          tr2 = (if faucet_enabled cfg
                 then tr1 @ [Log Info ''Faucet claims completed. Success: ${faucetSuccesses}/${this.wallets.length}'']
                 else tr1);
          tr3 = (if game_enabled cfg
                 then tr2 @ [Log Info ''Games completed. Success: ${gameSuccesses}/${totalGames}'']
                 else tr2)
      in tr3 @ [Log Info ''Run completed. Waiting ${waitHours} hours until next run'',
                Ext (Countdown (hours_between_runs cfg))])"

text \<open>\<^verbatim>\<open>run\<close> (lines 405-473) never returns; \<open>run n\<close> is the trace after its first \<open>n\<close>
  cycles.\<close>

fun run :: "nat \<Rightarrow> env \<Rightarrow> config \<Rightarrow> wallet list \<Rightarrow> trace \<Rightarrow> trace" where
  "run 0 env cfg wallets tr = tr"
| "run (Suc n) env cfg wallets tr = run n env cfg wallets (run_cycle env cfg wallets tr)"

section \<open>Concrete inputs\<close>

text \<open>
  A wallet, a configuration and an environment in which every external call succeeds, for
  evaluating the operations on concrete inputs.
\<close>

definition sample_wallet :: wallet where
  "sample_wallet = \<lparr>address = js ''0x1234567890abcdef1234'', privateKey = js ''0xaa''\<rparr>"

definition sample_cfg :: config where
  "sample_cfg =
     \<lparr>captcha_api_key = js ''key'', faucet_enabled = True, game_enabled = True,
      games_per_wallet = Some 2, hours_between_runs = 25, delay_between_claims = 3,
      min_score = 10, max_score = 10, min_play_time = 1, max_play_time = 4,
      delay_between_games = 2\<rparr>"

definition sample_env :: env where
  "sample_env =
     \<lparr>createTask_response = (\<lambda>tr. Some (Some (js ''task-1''))),
      getTaskResult_response = (\<lambda>tr. Some \<lparr>status = Some (js ''ready''), token = Some (js ''tok'')\<rparr>),
      faucet_response = (\<lambda>tr. Some (Some \<lparr>success = True, data = Some (Some (js ''0xf1''))\<rparr>)),
      getTransactionCount_response = (\<lambda>tr. Some 7),
      estimateGas_response = (\<lambda>tr. Some 100000),
      getGasPrice_response = (\<lambda>tr. Some 1000000000),
      signTransaction_response = (\<lambda>tr. Some (js ''0xf86b'')),
      sendTransaction_response = (\<lambda>tr. Some (js ''0xbeef'')),
      wait_response = (\<lambda>tr. Some 1),
      random_response = (\<lambda>tr. 1 / 2),
      withWallet_response = (\<lambda>tr. Some ()),
      now_response = (\<lambda>tr. 1700000000000),
      iso_response = (\<lambda>tr. js ''2023-11-14T22:13:20.000Z''),
      getPrice_response = (\<lambda>tr. Some 1000),
      upload_response = (\<lambda>tr. Some (js ''id-1'')),
      to_double = (\<lambda>x. x)\<rparr>"

section \<open>What the wallet loader is expected to return\<close>

text \<open>
  The reading of a key file in the words of the specification: the candidate keys are the
  trimmed lines that are neither blank nor comments, in file order, each with \<open>0x\<close> put
  in front when it is missing; the wallets of the valid lines are the wallets of those
  candidate keys from which an address derives, in the same order.
\<close>

definition line_keys :: "jsstring list \<Rightarrow> jsstring list" where
  "line_keys lines =
     map (\<lambda>l. if startsWith l (js ''0x'') then l else js ''0x'' @ l)
       (filter (\<lambda>l. l \<noteq> [] \<and> \<not> startsWith l (js ''#'')) (map trim lines))"

definition candidate_keys :: "jsstring \<Rightarrow> jsstring list" where
  "candidate_keys fileContents = line_keys (split_lines fileContents)"

definition wallets_of_keys :: "(jsstring \<Rightarrow> jsstring option) \<Rightarrow> jsstring list \<Rightarrow> wallet list" where
  "wallets_of_keys derive keys =
     List.map_filter
       (\<lambda>k. map_option (\<lambda>a. \<lparr>address = a, privateKey = k\<rparr>) (derive k)) keys"

definition valid_line_wallets :: "(jsstring \<Rightarrow> jsstring option) \<Rightarrow> jsstring \<Rightarrow> wallet list" where
  "valid_line_wallets derive fileContents = wallets_of_keys derive (candidate_keys fileContents)"

text \<open>A key derivation that accepts exactly the keys \<open>0xaa\<close> and \<open>0xbb\<close>, and two key
  files: one whose candidate lines all derive, one with a malformed key on its second
  line.\<close>

definition sample_derive :: "jsstring \<Rightarrow> jsstring option" where
  "sample_derive key =
     (if key = js ''0xaa'' then Some (js ''0x1234567890abcdef1234'')
      else if key = js ''0xbb'' then Some (js ''0xabcdef1234567890abcd'')
      else None)"

definition good_key_file :: jsstring where
  "good_key_file = js ''aa'' @ [0x0A] @ [0x0A] @ js ''# second key'' @ [0x0A] @ js '' 0xbb '' @ [0x0A]"

definition bad_key_file :: jsstring where
  "bad_key_file = js ''aa'' @ [0x0A] @ js ''zz'' @ [0x0A] @ js ''0xbb''"

section \<open>Reading the trace\<close>



fun is_faucet_request :: "event \<Rightarrow> bool" where
  "is_faucet_request (Ext (FaucetPost t a)) = True"
| "is_faucet_request e = False"




definition success_without_data_env :: env where
  "success_without_data_env =
     sample_env\<lparr>faucet_response := (\<lambda>tr. Some (Some \<lparr>success = True, data = None\<rparr>))\<rparr>"

definition faucet_refuses_env :: env where
  "faucet_refuses_env =
     sample_env\<lparr>faucet_response := (\<lambda>tr. Some (Some \<lparr>success = False, data = None\<rparr>))\<rparr>"





text \<open>
  The game marks of a trace: the start of a game iteration for a wallet, and the message
  of line 451 with which the scheduler records that the iteration it has just run
  failed.
\<close>

definition game_failed_log :: event where
  "game_failed_log = Log Error ''Game ${gameNum}/${gamesPerWallet} failed for wallet ${address}''"

fun is_game_start :: "event \<Rightarrow> bool" where
  "is_game_start (Enter (GAME a)) = True"
| "is_game_start e = False"

definition is_game_mark :: "event \<Rightarrow> bool" where
  "is_game_mark e = (is_game_start e \<or> e = game_failed_log)"

definition games :: "trace \<Rightarrow> trace" where
  "games tr = filter is_game_mark tr"

text \<open>
  The game marks of one wallet in one cycle, in the words of the specification: with a
  game count \<open>n\<close>, \<open>k\<close> iterations succeed one after the other; when \<open>k\<close> is below \<open>n\<close>
  one more iteration is started, fails, and is the last one.
\<close>

definition game_pattern :: "jsstring \<Rightarrow> int \<Rightarrow> nat \<Rightarrow> trace" where
  "game_pattern a n k =
     replicate k (Enter (GAME a))
       @ (if int k < n then [Enter (GAME a), game_failed_log] else [])"


definition default_count_cfg :: config where
  "default_count_cfg = sample_cfg\<lparr>games_per_wallet := None\<rparr>"

definition games_off_cfg :: config where
  "games_off_cfg = sample_cfg\<lparr>games_per_wallet := Some 0, game_enabled := False\<rparr>"

definition second_wallet :: wallet where
  "second_wallet = \<lparr>address = js ''0xabcdef1234567890abcd'', privateKey = js ''0xbb''\<rparr>"



section \<open>The gas buffer\<close>

lemma bufferedGasLimit_floor: "int (bufferedGasLimit e) = \<lfloor>real e * 110 / 100\<rfloor>"
proof -
  have "\<lfloor>real e * 110 / 100\<rfloor> = \<lfloor>real (e * 110) / real (100::nat)\<rfloor>"
    by simp
  also have "\<dots> = int ((e * 110) div 100)"
    by (simp only: floor_divide_of_nat_eq)
  finally show ?thesis
    by (simp add: bufferedGasLimit_def)
qed

lemma bufferedGasLimit_ge: "e \<le> bufferedGasLimit e"
  unfolding bufferedGasLimit_def by simp

lemma payForGame_signed:
  assumes "Ext (SignTransaction k t) \<in> set (drop (length tr) (snd (payForGame env w tr)))"
  shows "\<exists>estimate.
           estimateGas_response env
             (tr @ [Enter (PAY (address w)), Ext (GetTransactionCount (address w)),
                    Ext (EstimateGas (address w) contract_address gamePaymentValue)])
             = Some estimate
           \<and> tx_gasLimit t = bufferedGasLimit estimate"
  using assms
  by (simp add: payForGame_def pay_catch_def Let_def split: option.splits if_splits)

text \<open>
  Claim C5.  The buffered gas limit is the floor of \<open>estimate * 110 / 100\<close> and is never
  below the estimate; an estimate of 100000 gives 110000; and every transaction that
  \<^verbatim>\<open>payForGame\<close> hands to signing carries the buffered limit of the estimate that the
  chain returned in that call, hence a limit that is not lower than that estimate.
\<close>

theorem pay_gas_limit_is_buffered_estimate:
  "int (bufferedGasLimit e) = \<lfloor>real e * 110 / 100\<rfloor>
   \<and> e \<le> bufferedGasLimit e
   \<and> bufferedGasLimit 100000 = 110000
   \<and> (Ext (SignTransaction k t) \<in> set (drop (length tr) (snd (payForGame env w tr))) \<longrightarrow>
        (\<exists>estimate.
           estimateGas_response env
             (tr @ [Enter (PAY (address w)), Ext (GetTransactionCount (address w)),
                    Ext (EstimateGas (address w) contract_address gamePaymentValue)])
             = Some estimate
           \<and> int (tx_gasLimit t) = \<lfloor>real estimate * 110 / 100\<rfloor>
           \<and> estimate \<le> tx_gasLimit t))"
proof -
  have "bufferedGasLimit 100000 = 110000"
    by (simp add: bufferedGasLimit_def)
  moreover have "\<exists>estimate.
           estimateGas_response env
             (tr @ [Enter (PAY (address w)), Ext (GetTransactionCount (address w)),
                    Ext (EstimateGas (address w) contract_address gamePaymentValue)])
             = Some estimate
           \<and> int (tx_gasLimit t) = \<lfloor>real estimate * 110 / 100\<rfloor>
           \<and> estimate \<le> tx_gasLimit t"
    if "Ext (SignTransaction k t) \<in> set (drop (length tr) (snd (payForGame env w tr)))"
    using payForGame_signed [OF that] bufferedGasLimit_floor bufferedGasLimit_ge
    by metis
  ultimately show ?thesis
    using bufferedGasLimit_floor [of e] bufferedGasLimit_ge [of e] by blast
qed

theorem pay_gas_limit_is_buffered_estimate_witness:
  "Ext (SignTransaction (js ''0xaa'')
          \<lparr>tx_to = contract_address, tx_value = gamePaymentValue, tx_gasLimit = 110000,
           tx_gasPrice = 1000000000, tx_nonce = 7, tx_chainId = chain_id\<rparr>)
     \<in> set (drop (length []) (snd (payForGame sample_env sample_wallet [])))
   \<and> estimateGas_response sample_env
        ([] @ [Enter (PAY (address sample_wallet)), Ext (GetTransactionCount (address sample_wallet)),
               Ext (EstimateGas (address sample_wallet) contract_address gamePaymentValue)])
        = Some 100000
   \<and> int (bufferedGasLimit 100000) = \<lfloor>real 100000 * 110 / 100\<rfloor>"
  using pay_gas_limit_is_buffered_estimate
          [of 100000 "js ''0xaa''"
              "\<lparr>tx_to = contract_address, tx_value = gamePaymentValue, tx_gasLimit = 110000,
                tx_gasPrice = 1000000000, tx_nonce = 7, tx_chainId = chain_id\<rparr>"
              "[]" sample_env sample_wallet]
  by (simp add: payForGame_def Let_def sample_env_def sample_wallet_def bufferedGasLimit_def)

section \<open>The display name\<close>

lemma nat_int_minus4: "nat (int n - 4) = n - 4"
  by simp

lemma shortenedAddress_eq:
  "shortenedAddress a =
     (if startsWith a (js ''0x'') \<and> 10 < length a
      then take 6 a @ js ''...'' @ drop (length a - 4) a else a)"
  by (simp add: shortenedAddress_def substring_def substring_from_def clamp_index_def Let_def
        min_def max_def nat_int_minus4)

lemma player_name_tag:
  "map_of (score_tags a score ts) (js ''Player-Name'') = Some (shortenedAddress a)"
  by (simp add: score_tags_def js_def)

text \<open>
  Claim C8, as amended.  The \<open>Player-Name\<close> tag of the published record is the first 6
  code units of the address, three dots and its last 4 code units when the address starts
  with \<open>0x\<close> and is longer than 10, and the address itself otherwise; the address
  \<open>0x1234567890abcdef1234\<close> gives \<open>0x1234...1234\<close>.
\<close>

theorem display_name_of_address:
  "map_of (score_tags a score ts) (js ''Player-Name'') =
     Some (if startsWith a (js ''0x'') \<and> 10 < length a
           then take 6 a @ js ''...'' @ drop (length a - 4) a else a)
   \<and> shortenedAddress (js ''0x1234567890abcdef1234'') = js ''0x1234...1234''"
proof -
  have "shortenedAddress (js ''0x1234567890abcdef1234'') = js ''0x1234...1234''"
    by (simp add: shortenedAddress_eq js_def startsWith_def)
  then show ?thesis
    using player_name_tag [of a score ts] shortenedAddress_eq [of a] by simp
qed

theorem display_name_of_address_witness:
  "map_of (score_tags (js ''0x1234567890abcdef1234'') 10 1700000000000) (js ''Player-Name'')
     = Some (js ''0x1234...1234'')
   \<and> map_of (score_tags (js ''0x12345678'') 10 1700000000000) (js ''Player-Name'')
     = Some (js ''0x12345678'')"
  using display_name_of_address [of "js ''0x1234567890abcdef1234''" 10 1700000000000]
        display_name_of_address [of "js ''0x12345678''" 10 1700000000000]
  by (simp add: js_def startsWith_def)

text \<open>
  Claim C8 as stated fails on an address that is longer than 10 and does not start with
  \<open>0x\<close>: line 305 tests \<^verbatim>\<open>address.startsWith('0x')\<close> as well, so the tag is the raw address
  and not the shortened form.
\<close>

theorem display_name_without_0x_counterexample:
  "10 < length (js ''1234567890abcdef'')
   \<and> map_of (score_tags (js ''1234567890abcdef'') 10 1700000000000) (js ''Player-Name'')
       = Some (js ''1234567890abcdef'')
   \<and> take 6 (js ''1234567890abcdef'') @ js ''...''
         @ drop (length (js ''1234567890abcdef'') - 4) (js ''1234567890abcdef'')
       = js ''123456...cdef''
   \<and> js ''1234567890abcdef'' \<noteq> js ''123456...cdef''"
  by (simp add: score_tags_def shortenedAddress_def js_def startsWith_def)

section \<open>The simulated score\<close>















section \<open>The wallet loader\<close>

lemma line_keys_Nil: "line_keys [] = []"
  by (simp add: line_keys_def)

lemma line_keys_Cons:
  "line_keys (line # lines) =
     (if trim line = [] \<or> startsWith (trim line) (js ''#'') then line_keys lines
      else (if startsWith (trim line) (js ''0x'') then trim line else js ''0x'' @ trim line)
           # line_keys lines)"
  by (simp add: line_keys_def)

lemma wallets_of_keys_Nil: "wallets_of_keys derive [] = []"
  by (simp add: wallets_of_keys_def)

lemma wallets_of_keys_Cons:
  "wallets_of_keys derive (k # ks) =
     (case derive k of
        None \<Rightarrow> wallets_of_keys derive ks
      | Some a \<Rightarrow> \<lparr>address = a, privateKey = k\<rparr> # wallets_of_keys derive ks)"
  by (simp add: wallets_of_keys_def split: option.splits)

lemma loadWallets_loop_eq:
  "loadWallets_loop derive lines ws =
     (if \<forall>k \<in> set (line_keys lines). derive k \<noteq> None
      then Some (ws @ wallets_of_keys derive (line_keys lines))
      else None)"
proof (induction lines arbitrary: ws)
  case Nil
  show ?case
    by (simp add: line_keys_Nil wallets_of_keys_Nil)
next
  case (Cons line lines)
  show ?case
  proof (cases "trim line = [] \<or> startsWith (trim line) (js ''#'')")
    case True
    then show ?thesis
      using Cons.IH [of ws] by (simp add: line_keys_Cons)
  next
    case False
    let ?key = "if startsWith (trim line) (js ''0x'') then trim line else js ''0x'' @ trim line"
    have keys: "line_keys (line # lines) = ?key # line_keys lines"
      using False by (simp add: line_keys_Cons)
    show ?thesis
    proof (cases "derive ?key")
      case None
      then show ?thesis
        using False keys by (simp add: Let_def)
    next
      case (Some a)
      then show ?thesis
        using False keys Cons.IH [of "ws @ [\<lparr>address = a, privateKey = ?key\<rparr>]"]
        by (simp add: Let_def wallets_of_keys_Cons)
    qed
  qed
qed

text \<open>
  Claim C1, as amended.  The loader takes the lines in file order, leaves out blank lines
  and \<open>#\<close> comments and puts \<open>0x\<close> in front of a key that lacks it.  When an address
  derives from every remaining line it returns exactly the wallets of those lines, in
  file order, and logs their number.  When one of them fails key derivation, or the
  file cannot be read, it logs one error and returns the empty list: no exception
  leaves the loader, and the wallets of the other lines are not returned.
\<close>

theorem loadWallets_all_or_nothing:
  "fst (loadWallets derive (Some fileContents) tr) =
     (if \<forall>k \<in> set (candidate_keys fileContents). derive k \<noteq> None
      then valid_line_wallets derive fileContents
      else [])
   \<and> snd (loadWallets derive (Some fileContents) tr) =
     tr @ [if \<forall>k \<in> set (candidate_keys fileContents). derive k \<noteq> None
           then Log Info ''Loaded ${wallets.length} wallets from private keys''
           else Log Error ''Error loading private keys'']
   \<and> loadWallets derive None tr = ([], tr @ [Log Error ''Error loading private keys''])"
proof (cases "\<forall>k \<in> set (candidate_keys fileContents). derive k \<noteq> None")
  case True
  then have "loadWallets_loop derive (split_lines fileContents) [] =
               Some (valid_line_wallets derive fileContents)"
    by (simp add: loadWallets_loop_eq candidate_keys_def valid_line_wallets_def)
  with True show ?thesis
    by (simp add: loadWallets_def)
next
  case False
  then have "loadWallets_loop derive (split_lines fileContents) [] = None"
    by (simp add: loadWallets_loop_eq candidate_keys_def)
  with False show ?thesis
    by (auto simp add: loadWallets_def)
qed

lemma good_keys: "candidate_keys good_key_file = [js ''0xaa'', js ''0xbb'']"
  by (simp add: candidate_keys_def good_key_file_def line_keys_def js_def trim_def is_space_def startsWith_def)

lemma bad_keys: "candidate_keys bad_key_file = [js ''0xaa'', js ''0xzz'', js ''0xbb'']"
  by (simp add: candidate_keys_def bad_key_file_def line_keys_def js_def trim_def is_space_def startsWith_def)

theorem loadWallets_all_or_nothing_witness:
  "candidate_keys good_key_file = [js ''0xaa'', js ''0xbb'']
   \<and> sample_derive (js ''0xaa'') \<noteq> None \<and> sample_derive (js ''0xbb'') \<noteq> None
   \<and> fst (loadWallets sample_derive (Some good_key_file) []) =
       [\<lparr>address = js ''0x1234567890abcdef1234'', privateKey = js ''0xaa''\<rparr>,
        \<lparr>address = js ''0xabcdef1234567890abcd'', privateKey = js ''0xbb''\<rparr>]
   \<and> candidate_keys bad_key_file = [js ''0xaa'', js ''0xzz'', js ''0xbb'']
   \<and> sample_derive (js ''0xzz'') = None
   \<and> loadWallets sample_derive (Some bad_key_file) [] =
       ([], [Log Error ''Error loading private keys''])"
  using loadWallets_all_or_nothing [of sample_derive good_key_file "[]"]
        loadWallets_all_or_nothing [of sample_derive bad_key_file "[]"]
  by (simp add: good_keys bad_keys valid_line_wallets_def wallets_of_keys_def
        sample_derive_def js_def prod_eq_iff)

text \<open>
  Claim C1 as stated fails on a file whose second line is a malformed key between two
  valid ones: the wallets of the valid lines are two, and the loader returns none,
  because the \<^verbatim>\<open>try\<close> block encloses the whole loop and its \<^verbatim>\<open>catch\<close> returns \<^verbatim>\<open>[]\<close>.
\<close>

theorem loadWallets_bad_line_loses_all_counterexample:
  "valid_line_wallets sample_derive bad_key_file =
       [\<lparr>address = js ''0x1234567890abcdef1234'', privateKey = js ''0xaa''\<rparr>,
        \<lparr>address = js ''0xabcdef1234567890abcd'', privateKey = js ''0xbb''\<rparr>]
   \<and> fst (loadWallets sample_derive (Some bad_key_file) []) = []"
  by (simp add: loadWallets_def loadWallets_loop_eq candidate_keys_def [symmetric] bad_keys
        valid_line_wallets_def wallets_of_keys_def sample_derive_def js_def)

section \<open>The captcha poll loop\<close>

declare poll_loop.simps [simp del]




lemma poll_loop_ready:
  assumes "attempts < maxAttempts"
    and "getTaskResult_response env (tr @ [Ext (GetTaskResult (captcha_api_key cfg) taskId)]) = Some result"
    and "status result = Some (js ''ready'')"
  shows "poll_loop env cfg taskId attempts tr =
           (Some (case token result of None \<Rightarrow> Undefined | Some t \<Rightarrow> Token t),
            tr @ [Ext (GetTaskResult (captcha_api_key cfg) taskId), Log Info ''Captcha solution received''])"
  using assms by (subst poll_loop.simps) (simp add: Let_def)

lemma poll_loop_failed:
  assumes "attempts < maxAttempts"
    and "getTaskResult_response env (tr @ [Ext (GetTaskResult (captcha_api_key cfg) taskId)]) = Some result"
    and "status result = Some (js ''failed'')"
  shows "poll_loop env cfg taskId attempts tr =
           (Some Null,
            tr @ [Ext (GetTaskResult (captcha_api_key cfg) taskId),
                  Log Error ''Captcha task failed: ${JSON.stringify(result.data)}''])"
  using assms by (subst poll_loop.simps) (simp add: Let_def js_def)

lemma poll_loop_other:
  assumes "attempts < maxAttempts"
    and "getTaskResult_response env (tr @ [Ext (GetTaskResult (captcha_api_key cfg) taskId)]) = Some result"
    and "status result \<noteq> Some (js ''ready'')" and "status result \<noteq> Some (js ''failed'')"
  shows "poll_loop env cfg taskId attempts tr =
           poll_loop env cfg taskId (attempts + 1)
             (tr @ [Ext (GetTaskResult (captcha_api_key cfg) taskId), Sleep 2000])"
  using assms by (subst poll_loop.simps) (simp add: Let_def)

lemma poll_loop_throw:
  assumes "attempts < maxAttempts"
    and "getTaskResult_response env (tr @ [Ext (GetTaskResult (captcha_api_key cfg) taskId)]) = None"
  shows "poll_loop env cfg taskId attempts tr =
           (None, tr @ [Ext (GetTaskResult (captcha_api_key cfg) taskId)])"
  using assms by (subst poll_loop.simps) (simp add: Let_def)

lemma poll_loop_exhausted:
  assumes "\<not> attempts < maxAttempts"
  shows "poll_loop env cfg taskId attempts tr =
           (Some Null, tr @ [Log Error ''Captcha solving timed out''])"
  using assms by (subst poll_loop.simps) simp













section \<open>The faucet claimer\<close>

lemma poll_loop_filter:
  assumes "\<And>k t. \<not> P (Ext (GetTaskResult k t))"
    and "\<not> P (Sleep 2000)"
    and "\<not> P (Log Info ''Captcha solution received'')"
    and "\<not> P (Log Error ''Captcha task failed: ${JSON.stringify(result.data)}'')"
    and "\<not> P (Log Error ''Captcha solving timed out'')"
  shows "filter P (snd (poll_loop env cfg taskId attempts tr)) = filter P tr"
proof (induction env cfg taskId attempts tr rule: poll_loop.induct)
  case (1 env cfg taskId attempts tr)
  let ?tr1 = "tr @ [Ext (GetTaskResult (captcha_api_key cfg) taskId)]"
  show ?case
  proof (cases "attempts < maxAttempts")
    case False
    then show ?thesis
      using assms by (simp add: poll_loop_exhausted)
  next
    case True
    show ?thesis
    proof (cases "getTaskResult_response env ?tr1")
      case None
      then show ?thesis
        using True assms by (simp add: poll_loop_throw)
    next
      case (Some result)
      consider (ready) "status result = Some (js ''ready'')"
        | (failed) "status result = Some (js ''failed'')"
        | (other) "status result \<noteq> Some (js ''ready'')" "status result \<noteq> Some (js ''failed'')"
        by blast
      then show ?thesis
      proof cases
        case ready
        then show ?thesis
          using assms by (simp add: poll_loop_ready [OF True Some])
      next
        case failed
        then show ?thesis
          using assms by (simp add: poll_loop_failed [OF True Some])
      next
        case other
        then show ?thesis
          using "1.IH" [OF True refl Some] assms
          by (simp add: poll_loop_other [OF True Some other])
      qed
    qed
  qed
qed

lemma not_game_failed_Info: "Log Info s \<noteq> game_failed_log"
  by (simp add: game_failed_log_def)

lemma getCaptchaToken_filter:
  assumes "\<And>k t. \<not> P (Ext (GetTaskResult k t))"
    and "\<And>k u s. \<not> P (Ext (CreateTask k u s))"
    and "\<not> P (Enter CAPTCHA)"
    and "\<And>n. \<not> P (Sleep n)"
    and log: "\<And>l s. Log l s \<noteq> game_failed_log \<Longrightarrow> \<not> P (Log l s)"
  shows "filter P (snd (getCaptchaToken env cfg tr)) = filter P tr"
proof -
  let ?c = "tr @ [Enter CAPTCHA,
                  Ext (CreateTask (captcha_api_key cfg) (js ''https://irys.xyz/faucet'') site_key)]"
  have info: "\<And>s. \<not> P (Log Info s)"
    by (rule log) (rule not_game_failed_Info)
  have e1: "\<not> P (Log Error ''Error solving captcha'')"
    by (rule log) (simp add: game_failed_log_def)
  have e2: "\<not> P (Log Error ''Failed to create captcha task: ${JSON.stringify(createTaskResponse.data)}'')"
    by (rule log) (simp add: game_failed_log_def)
  have e3: "\<not> P (Log Error ''Captcha task failed: ${JSON.stringify(result.data)}'')"
    by (rule log) (simp add: game_failed_log_def)
  have e4: "\<not> P (Log Error ''Captcha solving timed out'')"
    by (rule log) (simp add: game_failed_log_def)
  show ?thesis
  proof (cases "createTask_response env ?c")
    case None
    then show ?thesis
      using assms(1-4) info e1 by (simp add: getCaptchaToken_def Let_def)
  next
    case (Some taskId)
    let ?h = "?c @ [Log Info ''Created captcha task: ${taskId}'']"
    have "filter P (snd (poll_loop env cfg (the taskId) 0 ?h)) = filter P ?h"
      using assms(1,4) info e3 e4 by (intro poll_loop_filter) auto
    then show ?thesis
      using Some assms(1-4) info e1 e2
      by (cases "poll_loop env cfg (the taskId) 0 ?h")
         (auto simp: getCaptchaToken_def Let_def split: option.splits)
  qed
qed

lemma getCaptchaToken_no_faucet_request:
  "filter is_faucet_request (snd (getCaptchaToken env cfg tr)) = filter is_faucet_request tr"
  by (rule getCaptchaToken_filter) simp_all

lemma claimFaucet_without_token:
  assumes "\<not> truthy_token (fst (getCaptchaToken env cfg (tr @ [Enter (CLAIM a)])))"
  shows "fst (claimFaucet env cfg a tr) = False
         \<and> filter is_faucet_request (snd (claimFaucet env cfg a tr)) = filter is_faucet_request tr"
  using assms getCaptchaToken_no_faucet_request [of env cfg "tr @ [Enter (CLAIM a)]"]
  by (simp add: claimFaucet_def Let_def split_beta)

lemma claimFaucet_with_token:
  assumes "truthy_token (fst (getCaptchaToken env cfg (tr @ [Enter (CLAIM a)])))"
  shows "filter is_faucet_request (snd (claimFaucet env cfg a tr)) =
           filter is_faucet_request tr
             @ [Ext (FaucetPost (the_token (fst (getCaptchaToken env cfg (tr @ [Enter (CLAIM a)])))) a)]"
  using assms getCaptchaToken_no_faucet_request [of env cfg "tr @ [Enter (CLAIM a)]"]
  by (simp add: claimFaucet_def Let_def split_beta split: option.splits)

lemma claimFaucet_true_iff:
  "fst (claimFaucet env cfg a tr) \<longleftrightarrow>
     truthy_token (fst (getCaptchaToken env cfg (tr @ [Enter (CLAIM a)])))
     \<and> (\<exists>r d. faucet_response env
                 (snd (getCaptchaToken env cfg (tr @ [Enter (CLAIM a)]))
                    @ [Ext (FaucetPost (the_token (fst (getCaptchaToken env cfg (tr @ [Enter (CLAIM a)])))) a)])
               = Some (Some r)
             \<and> success r \<and> data r = Some d)"
  by (auto simp: claimFaucet_def Let_def split_beta split: option.splits)

text \<open>
  Claim C6 at a faucet response that carries a truthy \<^verbatim>\<open>success\<close> flag and no \<^verbatim>\<open>data\<close> field.
  A captcha token is obtained and one faucet request is issued, as the claim says; the
  claim then requires success, and \<^verbatim>\<open>claimFaucet\<close> returns \<^verbatim>\<open>false\<close>: the success branch reads
  \<^verbatim>\<open>result.data.transactionHash\<close> for its log message (line 198), the read throws, and the
  \<^verbatim>\<open>catch\<close> of line 204 reports an error.
\<close>

theorem claimFaucet_success_flag_without_data:
  "(\<forall>h. faucet_response success_without_data_env h = Some (Some \<lparr>success = True, data = None\<rparr>))
   \<and> getCaptchaToken success_without_data_env sample_cfg [Enter (CLAIM (address sample_wallet))] =
       (Token (js ''tok''),
        [Enter (CLAIM (address sample_wallet)),
         Enter CAPTCHA,
         Ext (CreateTask (js ''key'') (js ''https://irys.xyz/faucet'') site_key),
         Log Info ''Created captcha task: ${taskId}'',
         Ext (GetTaskResult (js ''key'') (js ''task-1'')),
         Log Info ''Captcha solution received''])
   \<and> claimFaucet success_without_data_env sample_cfg (address sample_wallet) [] =
       (False,
        [Enter (CLAIM (address sample_wallet)),
         Enter CAPTCHA,
         Ext (CreateTask (js ''key'') (js ''https://irys.xyz/faucet'') site_key),
         Log Info ''Created captcha task: ${taskId}'',
         Ext (GetTaskResult (js ''key'') (js ''task-1'')),
         Log Info ''Captcha solution received'',
         Ext (FaucetPost (js ''tok'') (address sample_wallet)),
         Log Error ''Error claiming faucet for ${walletAddress}''])"
proof -
  have cap: "getCaptchaToken success_without_data_env sample_cfg [Enter (CLAIM (address sample_wallet))] =
       (Token (js ''tok''),
        [Enter (CLAIM (address sample_wallet)),
         Enter CAPTCHA,
         Ext (CreateTask (js ''key'') (js ''https://irys.xyz/faucet'') site_key),
         Log Info ''Created captcha task: ${taskId}'',
         Ext (GetTaskResult (js ''key'') (js ''task-1'')),
         Log Info ''Captcha solution received''])"
    by (simp add: getCaptchaToken_def poll_loop.simps Let_def success_without_data_env_def
          sample_env_def sample_cfg_def truthy_def maxAttempts_def js_def)
  show ?thesis
    by (simp add: cap claimFaucet_def Let_def)
       (simp add: success_without_data_env_def sample_env_def js_def)
qed


lemma claimFaucet_refused:
  "fst (claimFaucet faucet_refuses_env sample_cfg (address sample_wallet) []) = False"
  by (simp add: claimFaucet_true_iff faucet_refuses_env_def)

section \<open>The score publisher\<close>






section \<open>What the operations add to a projection of the trace\<close>

text \<open>
  The lemmas of this section are about any predicate \<open>P\<close> on events that holds of no
  external call and of no log message other than the scheduler's \<open>game_failed_log\<close>: the
  operations below the scheduler add to \<open>filter P\<close> only their invocation marks and waits.
\<close>

lemma Log_cong: "Log l s = Log l s"
  by (rule refl)

lemma payForGame_filter:
  assumes ext: "\<And>c. \<not> P (Ext c)"
    and log: "\<And>l s. Log l s \<noteq> game_failed_log \<Longrightarrow> \<not> P (Log l s)"
  shows "filter P (snd (payForGame env w tr)) = filter P (tr @ [Enter (PAY (address w))])"
proof -
  let ?tr1 = "tr @ [Enter (PAY (address w)), Ext (GetTransactionCount (address w))]"
  let ?tr2 = "?tr1 @ [Ext (EstimateGas (address w) contract_address gamePaymentValue)]"
  let ?tr3 = "?tr2 @ [Ext GetGasPrice]"
  have info: "\<And>s. \<not> P (Log Info s)"
    by (rule log) (rule not_game_failed_Info)
  have e1: "\<not> P (Log Error ''Error paying for game'')"
    by (rule log) (simp add: game_failed_log_def)
  have e2: "\<not> P (Log Error ''Payment failed for wallet ${address}'')"
    by (rule log) (simp add: game_failed_log_def)
  note simps = payForGame_def pay_catch_def Let_def ext info e1 e2
  show ?thesis
  proof (cases "getTransactionCount_response env ?tr1")
    case None
    then show ?thesis by (simp add: simps)
  next
    case n: (Some nonce)
    show ?thesis
    proof (cases "estimateGas_response env ?tr2")
      case None
      then show ?thesis using n by (simp add: simps)
    next
      case g: (Some gasLimit)
      show ?thesis
      proof (cases "getGasPrice_response env ?tr3")
        case None
        then show ?thesis using n g by (simp add: simps)
      next
        case p: (Some gasPrice)
        let ?tx = "\<lparr>tx_to = contract_address, tx_value = gamePaymentValue,
                tx_gasLimit = bufferedGasLimit gasLimit, tx_gasPrice = gasPrice,
                tx_nonce = nonce, tx_chainId = chain_id\<rparr>"
        let ?tr4 = "?tr3 @ [Log Info ''Gas Details for wallet ${address}:'',
                       Log Info ''- Gas Limit: ${bufferedGasLimit.toString()}'',
                       Log Info ''- Gas Price: ${gasPrice.toString()} wei'',
                       Log Info ''- Estimated Total Gas Cost: ${bufferedGasLimit.mul(gasPrice).toString()} wei'',
                       Ext (SignTransaction (privateKey w) ?tx)]"
        show ?thesis
        proof (cases "signTransaction_response env ?tr4")
          case None
          then show ?thesis using n g p by (simp add: simps)
        next
          case s: (Some signedTx)
          let ?tr5 = "?tr4 @ [Ext (SendTransaction signedTx)]"
          show ?thesis
          proof (cases "sendTransaction_response env ?tr5")
            case None
            then show ?thesis using n g p s by (simp add: simps)
          next
            case h: (Some hash)
            let ?tr6 = "?tr5 @ [Log Info ''Payment transaction sent: ${txResponse.hash}'',
                       Ext (WaitReceipt hash)]"
            show ?thesis
              using n g p s h
              by (cases "wait_response env ?tr6") (simp_all add: simps)
          qed
        qed
      qed
    qed
  qed
qed

lemma simulateSnakeGame_filter:
  assumes ext: "\<And>c. \<not> P (Ext c)"
    and log: "\<And>l s. Log l s \<noteq> game_failed_log \<Longrightarrow> \<not> P (Log l s)"
  shows "filter P (snd (simulateSnakeGame env cfg tr)) =
           filter P (tr @ [Enter PLAY,
                           Sleep (draw (to_double env) (random_response env (tr @ [Enter PLAY, Ext MathRandom, Ext MathRandom]))
                                    (min_play_time cfg) (max_play_time cfg) * 1000)])"
proof -
  have info: "\<And>s. \<not> P (Log Info s)"
    by (rule log) (rule not_game_failed_Info)
  show ?thesis
    unfolding simulateSnakeGame_def Let_def
    by (simp add: ext info cong: Log_cong)
qed

lemma submitGameScore_filter:
  assumes ext: "\<And>c. \<not> P (Ext c)"
    and log: "\<And>l s. Log l s \<noteq> game_failed_log \<Longrightarrow> \<not> P (Log l s)"
  shows "filter P (snd (submitGameScore env w score tr)) =
           filter P (tr @ [Enter (PUBLISH (address w) score)])"
proof -
  have info: "\<And>s. \<not> P (Log Info s)"
    by (rule log) (rule not_game_failed_Info)
  have e1: "\<not> P (Log Error ''Error submitting game score'')"
    by (rule log) (simp add: game_failed_log_def)
  have e2: "\<not> P (Log Error ''Error during Irys upload'')"
    by (rule log) (simp add: game_failed_log_def)
  let ?tr1 = "tr @ [Enter (PUBLISH (address w) score),
                    Log Info ''Initializing Irys uploader for ${address}'',
                    Ext (WithWallet (privateKey w))]"
  let ?tr3 = "?tr1 @ [Ext DateNow, Ext DateISO]"
  let ?payload = "scoreData score (iso_response env ?tr3)"
  let ?tr4 = "?tr3 @ [Log Info ''Preparing to upload score ${score} for wallet ${address}'',
                      Ext (GetPrice (byteLength ?payload))]"
  let ?tr5 = "?tr4 @ [Log Info ''Price for uploading score: ${price}'',
                      Ext (Upload ?payload
                             (score_tags (address w) score (now_response env (?tr1 @ [Ext DateNow]))))]"
  show ?thesis
    by (cases "withWallet_response env ?tr1"; cases "getPrice_response env ?tr4";
        cases "upload_response env ?tr5")
       (simp_all add: submitGameScore_def Let_def ext info e1 e2)
qed

lemma playGameForWallet_pay_failed:
  assumes "\<not> truthy (fst (payForGame env w
                 (tr @ [Enter (GAME (address w)), Log Info ''Starting game cycle for wallet ${address}''])))"
  shows "playGameForWallet env cfg w tr =
           (False,
            snd (payForGame env w
                   (tr @ [Enter (GAME (address w)), Log Info ''Starting game cycle for wallet ${address}'']))
              @ [Log Error ''Failed to pay for game for wallet ${address}''])"
  using assms by (simp add: playGameForWallet_def Let_def split_beta)

lemma playGameForWallet_paid:
  assumes "truthy (fst (payForGame env w
                 (tr @ [Enter (GAME (address w)), Log Info ''Starting game cycle for wallet ${address}''])))"
  shows "playGameForWallet env cfg w tr =
           (let tr2 = snd (payForGame env w
                        (tr @ [Enter (GAME (address w)), Log Info ''Starting game cycle for wallet ${address}'']));
                played = simulateSnakeGame env cfg (tr2 @ [Sleep 5000]);
                published = submitGameScore env w (fst played) (snd played)
            in (fst published,
                snd published
                  @ [if fst published
                     then Log Info ''Game cycle completed successfully for wallet ${address} with score ${score}''
                     else Log Error ''Failed to submit score for wallet ${address}'']))"
  using assms by (simp add: playGameForWallet_def Let_def split_beta)

lemma playGameForWallet_filter:
  assumes ext: "\<And>c. \<not> P (Ext c)"
    and log: "\<And>l s. Log l s \<noteq> game_failed_log \<Longrightarrow> \<not> P (Log l s)"
  shows "filter P (snd (playGameForWallet env cfg w tr)) =
           filter P
             (tr @ [Enter (GAME (address w)), Enter (PAY (address w))]
                 @ (let h = snd (payForGame env w
                                   (tr @ [Enter (GAME (address w)),
                                          Log Info ''Starting game cycle for wallet ${address}'']))
                              @ [Sleep 5000]
                    in if truthy (fst (payForGame env w
                                   (tr @ [Enter (GAME (address w)),
                                          Log Info ''Starting game cycle for wallet ${address}''])))
                       then [Sleep 5000, Enter PLAY,
                             Sleep (draw (to_double env) (random_response env (h @ [Enter PLAY, Ext MathRandom, Ext MathRandom]))
                                      (min_play_time cfg) (max_play_time cfg) * 1000),
                             Enter (PUBLISH (address w) (fst (simulateSnakeGame env cfg h)))]
                       else []))"
proof -
  let ?tr1 = "tr @ [Enter (GAME (address w)), Log Info ''Starting game cycle for wallet ${address}'']"
  have info: "\<And>s. \<not> P (Log Info s)"
    by (rule log) (rule not_game_failed_Info)
  have e1: "\<not> P (Log Error ''Failed to pay for game for wallet ${address}'')"
    by (rule log) (simp add: game_failed_log_def)
  have e2: "\<not> P (Log Error ''Failed to submit score for wallet ${address}'')"
    by (rule log) (simp add: game_failed_log_def)
  note sub = payForGame_filter [of P, OF ext log] simulateSnakeGame_filter [of P, OF ext log]
    submitGameScore_filter [of P, OF ext log]
  show ?thesis
  proof (cases "truthy (fst (payForGame env w ?tr1))")
    case False
    then show ?thesis
      by (simp add: playGameForWallet_pay_failed sub info e1)
  next
    case True
    then show ?thesis
      by (simp add: playGameForWallet_paid Let_def sub info e2)
  qed
qed


section \<open>The orchestrator\<close>








section \<open>The scheduler\<close>

declare game_loop.simps [simp del]

lemma is_game_mark_simps:
  "is_game_mark (Ext c) = False"
  "is_game_mark (Sleep ms) = False"
  "is_game_mark (Log Info s) = False"
  "is_game_mark (Enter (GAME a)) = True"
  "is_game_mark (Enter (PAY a)) = False"
  "is_game_mark (Enter PLAY) = False"
  "is_game_mark (Enter (PUBLISH a score)) = False"
  "is_game_mark (Enter CAPTCHA) = False"
  "is_game_mark (Enter (CLAIM a)) = False"
  "is_game_mark game_failed_log = True"
  by (simp_all add: is_game_mark_def game_failed_log_def)

lemma is_game_mark_Log: "Log l s \<noteq> game_failed_log \<Longrightarrow> \<not> is_game_mark (Log l s)"
  by (simp add: is_game_mark_def)

lemma games_append: "games (xs @ ys) = games xs @ games ys"
  by (simp add: games_def)

lemma games_playGameForWallet:
  "games (snd (playGameForWallet env cfg w tr)) = games tr @ [Enter (GAME (address w))]"
  unfolding games_def
  by (subst playGameForWallet_filter [of is_game_mark])
     (simp_all add: is_game_mark_simps is_game_mark_Log Let_def)


lemma games_claimFaucet:
  "games (snd (claimFaucet env cfg a tr)) = games tr"
proof -
  let ?cap = "getCaptchaToken env cfg (tr @ [Enter (CLAIM a)])"
  have cap: "filter is_game_mark (snd ?cap) = filter is_game_mark tr"
    by (subst getCaptchaToken_filter [of is_game_mark])
       (simp_all add: is_game_mark_simps is_game_mark_Log)
  have e1: "\<not> is_game_mark (Log Error ''Failed to get captcha token'')"
    and e2: "\<not> is_game_mark (Log Error ''Error claiming faucet for ${walletAddress}'')"
    and e3: "\<not> is_game_mark (Log Error ''Failed to claim faucet for ${walletAddress}: ${JSON.stringify(result)}'')"
    by (simp_all add: is_game_mark_def game_failed_log_def)
  show ?thesis
    unfolding games_def claimFaucet_def Let_def split_beta
    by (simp add: cap e1 e2 e3 is_game_mark_simps split: option.split cong: Log_cong)
qed


lemma game_loop_done:
  assumes "\<not> gameNum \<le> gamesPerWallet cfg"
  shows "game_loop env cfg w gameNum s tr = (s, tr)"
  using assms by (subst game_loop.simps) simp

lemma game_loop_failed:
  assumes "gameNum \<le> gamesPerWallet cfg"
    and "\<not> fst (playGameForWallet env cfg w
                 (tr @ [Log Info ''Starting game ${gameNum}/${gamesPerWallet} for wallet ${address}'']))"
  shows "game_loop env cfg w gameNum s tr =
           (s, snd (playGameForWallet env cfg w
                      (tr @ [Log Info ''Starting game ${gameNum}/${gamesPerWallet} for wallet ${address}'']))
                 @ [game_failed_log])"
  using assms by (subst game_loop.simps) (simp add: split_beta game_failed_log_def)

lemma game_loop_completed:
  assumes "gameNum \<le> gamesPerWallet cfg"
    and "fst (playGameForWallet env cfg w
                 (tr @ [Log Info ''Starting game ${gameNum}/${gamesPerWallet} for wallet ${address}'']))"
  shows "game_loop env cfg w gameNum s tr =
           game_loop env cfg w (gameNum + 1) (s + 1)
             (snd (playGameForWallet env cfg w
                     (tr @ [Log Info ''Starting game ${gameNum}/${gamesPerWallet} for wallet ${address}'']))
                @ (if gameNum < gamesPerWallet cfg
                   then [Sleep (delay_between_games cfg * 1000)] else []))"
  using assms by (subst game_loop.simps) (simp add: split_beta)

lemma game_pattern_0_pos: "0 < n \<Longrightarrow> game_pattern a n 0 = [Enter (GAME a), game_failed_log]"
  by (simp add: game_pattern_def)

lemma game_pattern_0_none: "n \<le> 0 \<Longrightarrow> game_pattern a n 0 = []"
  by (simp add: game_pattern_def)

lemma game_pattern_Suc: "game_pattern a n (Suc k) = Enter (GAME a) # game_pattern a (n - 1) k"
  by (simp add: game_pattern_def)

lemma game_loop_games:
  "\<exists>k. int k \<le> max 0 (gamesPerWallet cfg + 1 - gameNum)
       \<and> fst (game_loop env cfg w gameNum s tr) = s + k
       \<and> games (snd (game_loop env cfg w gameNum s tr)) =
           games tr @ game_pattern (address w) (gamesPerWallet cfg + 1 - gameNum) k"
proof (induction env cfg w gameNum s tr rule: game_loop.induct)
  case (1 env cfg w gameNum s tr)
  let ?n = "gamesPerWallet cfg"
  let ?p = "playGameForWallet env cfg w
              (tr @ [Log Info ''Starting game ${gameNum}/${gamesPerWallet} for wallet ${address}''])"
  have played: "games (snd ?p) = games tr @ [Enter (GAME (address w))]"
    by (simp add: games_playGameForWallet) (simp add: games_def is_game_mark_simps)
  show ?case
  proof (cases "gameNum \<le> ?n")
    case False
    then have "int 0 \<le> max 0 (?n + 1 - gameNum)
         \<and> fst (game_loop env cfg w gameNum s tr) = s + 0
         \<and> games (snd (game_loop env cfg w gameNum s tr)) =
             games tr @ game_pattern (address w) (?n + 1 - gameNum) 0"
      by (simp add: game_loop_done game_pattern_0_none)
    then show ?thesis
      by blast
  next
    case True
    show ?thesis
    proof (cases "fst ?p")
      case False
      have "int 0 \<le> max 0 (?n + 1 - gameNum)
         \<and> fst (game_loop env cfg w gameNum s tr) = s + 0
         \<and> games (snd (game_loop env cfg w gameNum s tr)) =
             games tr @ game_pattern (address w) (?n + 1 - gameNum) 0"
        using True
        by (simp add: game_loop_failed [OF True False] games_append played game_pattern_0_pos)
           (simp add: games_def is_game_mark_simps)
      then show ?thesis
        by blast
    next
      case completed: True
      let ?tr' = "snd ?p @ (if gameNum < ?n then [Sleep (delay_between_games cfg * 1000)] else [])"
      have tr': "(if gameNum < ?n then snd ?p @ [Sleep (delay_between_games cfg * 1000)] else snd ?p) = ?tr'"
        by simp
      obtain k where k: "int k \<le> max 0 (?n + 1 - (gameNum + 1))"
        "fst (game_loop env cfg w (gameNum + 1) (s + 1) ?tr') = s + 1 + k"
        "games (snd (game_loop env cfg w (gameNum + 1) (s + 1) ?tr')) =
           games ?tr' @ game_pattern (address w) (?n + 1 - (gameNum + 1)) k"
        using "1.IH" [OF True refl prod.collapse completed] unfolding tr' by blast
      have marks: "games ?tr' = games tr @ [Enter (GAME (address w))]"
        by (simp add: games_append played) (simp add: games_def is_game_mark_simps)
      have "int (Suc k) \<le> max 0 (?n + 1 - gameNum)
         \<and> fst (game_loop env cfg w gameNum s tr) = s + Suc k
         \<and> games (snd (game_loop env cfg w gameNum s tr)) =
             games tr @ game_pattern (address w) (?n + 1 - gameNum) (Suc k)"
        using True k marks
        by (simp add: game_loop_completed [OF True completed] game_pattern_Suc)
      then show ?thesis
        by blast
    qed
  qed
qed


lemma process_wallet_games:
  "\<exists>k. int k \<le> max 0 (gamesPerWallet cfg)
       \<and> fst (snd (process_wallet env cfg w (fs, gs, tr))) = gs + (if game_enabled cfg then k else 0)
       \<and> games (snd (snd (process_wallet env cfg w (fs, gs, tr)))) =
           games tr @ (if game_enabled cfg then game_pattern (address w) (gamesPerWallet cfg) k else [])"
proof -
  let ?tr1 = "tr @ [Log Info ''Processing wallet ${i + 1}/${this.wallets.length}: ${address}'']"
  let ?claim = "claimFaucet env cfg (address w) (?tr1 @ [Log Info ''Attempting faucet claim for ${address}''])"
  let ?f = "if faucet_enabled cfg
            then (if fst ?claim
                  then (fs + 1, snd ?claim @ [Sleep (delay_between_claims cfg * 1000)])
                  else (fs, snd ?claim))
            else (fs, ?tr1)"
  let ?h = "snd ?f @ [Log Info ''Starting ${gamesPerWallet} games for wallet ${address}'']"
  have pw: "process_wallet env cfg w (fs, gs, tr) =
              (fst ?f, if game_enabled cfg then game_loop env cfg w 1 gs ?h else (gs, snd ?f))"
    by (simp add: process_wallet_def Let_def split_beta)
  have f: "games (snd ?f) = games tr"
    by (simp add: games_append games_claimFaucet) (simp add: games_def is_game_mark_simps)
  have h: "games ?h = games tr"
    by (simp only: games_append f) (simp add: games_def is_game_mark_simps)
  show ?thesis
  proof (cases "game_enabled cfg")
    case False
    then have "int 0 \<le> max 0 (gamesPerWallet cfg)
       \<and> fst (snd (process_wallet env cfg w (fs, gs, tr))) = gs + (if game_enabled cfg then 0 else 0)
       \<and> games (snd (snd (process_wallet env cfg w (fs, gs, tr)))) =
           games tr @ (if game_enabled cfg then game_pattern (address w) (gamesPerWallet cfg) 0 else [])"
      using f by (simp add: pw)
    then show ?thesis
      by blast
  next
    case True
    obtain k where k: "int k \<le> max 0 (gamesPerWallet cfg + 1 - 1)"
      "fst (game_loop env cfg w 1 gs ?h) = gs + k"
      "games (snd (game_loop env cfg w 1 gs ?h)) =
         games ?h @ game_pattern (address w) (gamesPerWallet cfg + 1 - 1) k"
      using game_loop_games [of cfg 1 env w gs ?h] by blast
    have "int k \<le> max 0 (gamesPerWallet cfg)
       \<and> fst (snd (process_wallet env cfg w (fs, gs, tr))) = gs + (if game_enabled cfg then k else 0)
       \<and> games (snd (snd (process_wallet env cfg w (fs, gs, tr)))) =
           games tr @ (if game_enabled cfg then game_pattern (address w) (gamesPerWallet cfg) k else [])"
      using True k h by (simp add: pw)
    then show ?thesis
      by blast
  qed
qed

lemma wallet_loop_games:
  "\<exists>ks. length ks = length ws
        \<and> (\<forall>k \<in> set ks. int k \<le> max 0 (gamesPerWallet cfg))
        \<and> games (snd (snd (wallet_loop env cfg ws (fs, gs, tr)))) =
            games tr @ (if game_enabled cfg
                        then concat (map2 (\<lambda>w k. game_pattern (address w) (gamesPerWallet cfg) k) ws ks)
                        else [])"
proof (induction ws arbitrary: fs gs tr)
  case Nil
  show ?case
    by simp
next
  case (Cons w ws)
  obtain fs' gs' tr' where st: "process_wallet env cfg w (fs, gs, tr) = (fs', gs', tr')"
    by (cases "process_wallet env cfg w (fs, gs, tr)") auto
  obtain k where k: "int k \<le> max 0 (gamesPerWallet cfg)"
    "games tr' = games tr @ (if game_enabled cfg
                             then game_pattern (address w) (gamesPerWallet cfg) k else [])"
    using process_wallet_games [of cfg env w fs gs tr] st by auto
  obtain ks where ks: "length ks = length ws"
    "\<forall>k \<in> set ks. int k \<le> max 0 (gamesPerWallet cfg)"
    "games (snd (snd (wallet_loop env cfg ws (fs', gs', tr')))) =
       games tr' @ (if game_enabled cfg
                    then concat (map2 (\<lambda>w k. game_pattern (address w) (gamesPerWallet cfg) k) ws ks)
                    else [])"
    using Cons.IH [of fs' gs' tr'] by blast
  have "length (k # ks) = length (w # ws)
        \<and> (\<forall>k \<in> set (k # ks). int k \<le> max 0 (gamesPerWallet cfg))
        \<and> games (snd (snd (wallet_loop env cfg (w # ws) (fs, gs, tr)))) =
            games tr @ (if game_enabled cfg
                        then concat (map2 (\<lambda>w k. game_pattern (address w) (gamesPerWallet cfg) k)
                                       (w # ws) (k # ks))
                        else [])"
    using k ks st by simp
  then show ?case
    by blast
qed

lemma run_cycle_games:
  "\<exists>ks. length ks = length ws
        \<and> (\<forall>k \<in> set ks. int k \<le> max 0 (gamesPerWallet cfg))
        \<and> games (run_cycle env cfg ws tr) =
            games tr @ (if game_enabled cfg
                        then concat (map2 (\<lambda>w k. game_pattern (address w) (gamesPerWallet cfg) k) ws ks)
                        else [])"
proof -
  obtain ks where ks: "length ks = length ws"
    "\<forall>k \<in> set ks. int k \<le> max 0 (gamesPerWallet cfg)"
    "games (snd (snd (wallet_loop env cfg ws (0, 0, tr)))) =
       games tr @ (if game_enabled cfg
                   then concat (map2 (\<lambda>w k. game_pattern (address w) (gamesPerWallet cfg) k) ws ks)
                   else [])"
    using wallet_loop_games [of ws cfg env 0 0 tr] by blast
  have "games (run_cycle env cfg ws tr) = games (snd (snd (wallet_loop env cfg ws (0, 0, tr))))"
    by (simp add: run_cycle_def Let_def split_beta games_append)
       (simp add: games_def is_game_mark_simps)
  with ks show ?thesis
    by auto
qed







lemma filter_start_games: "filter is_game_start (games tr) = filter is_game_start tr"
proof -
  have "is_game_start e \<Longrightarrow> is_game_mark e" for e
    by (simp add: is_game_mark_def)
  then show ?thesis
    unfolding games_def by (induction tr) auto
qed

lemma starts_of_single_game:
  assumes "int k \<le> 1"
  shows "filter is_game_start (game_pattern a 1 k) = [Enter (GAME a)]"
proof -
  have "k = 0 \<or> k = 1"
    using assms by linarith
  then show ?thesis
    by (auto simp: game_pattern_def game_failed_log_def)
qed

lemma starts_of_single_games:
  assumes "length ks = length ws" and "\<forall>k \<in> set ks. int k \<le> 1"
  shows "filter is_game_start (concat (map2 (\<lambda>w k. game_pattern (address w) 1 k) ws ks)) =
           map (\<lambda>w. Enter (GAME (address w))) ws"
  using assms
proof (induction ks ws rule: list_induct2)
  case Nil
  show ?case
    by simp
next
  case (Cons k ks w ws)
  then show ?case
    by (simp add: starts_of_single_game)
qed

lemma gamesPerWallet_default:
  assumes "games_per_wallet cfg = None \<or> games_per_wallet cfg = Some 0"
  shows "gamesPerWallet cfg = 1"
  using assms by (auto simp: gamesPerWallet_def)

text \<open>
  Claim C10, as amended.  When game mode is on and \<^verbatim>\<open>games_per_wallet\<close> is absent, null or
  0, the game count is 1 and a cycle starts exactly one game iteration for each wallet,
  in list order.
\<close>

theorem falsy_game_count_runs_one_game_per_wallet:
  "game_enabled cfg \<and> (games_per_wallet cfg = None \<or> games_per_wallet cfg = Some 0) \<longrightarrow>
     gamesPerWallet cfg = 1
     \<and> filter is_game_start (run_cycle env cfg ws tr) =
         filter is_game_start tr @ map (\<lambda>w. Enter (GAME (address w))) ws"
proof (intro impI, elim conjE)
  assume on: "game_enabled cfg"
    and falsy: "games_per_wallet cfg = None \<or> games_per_wallet cfg = Some 0"
  have one: "gamesPerWallet cfg = 1"
    using falsy by (rule gamesPerWallet_default)
  obtain ks where ks: "length ks = length ws" "\<forall>k \<in> set ks. int k \<le> 1"
    "games (run_cycle env cfg ws tr) =
       games tr @ concat (map2 (\<lambda>w k. game_pattern (address w) 1 k) ws ks)"
    using run_cycle_games [of ws cfg env tr] on one by auto
  have "filter is_game_start (run_cycle env cfg ws tr) =
          filter is_game_start (games (run_cycle env cfg ws tr))"
    by (simp add: filter_start_games)
  also have "\<dots> = filter is_game_start tr @ map (\<lambda>w. Enter (GAME (address w))) ws"
    using ks by (simp add: filter_start_games starts_of_single_games)
  finally show "gamesPerWallet cfg = 1
     \<and> filter is_game_start (run_cycle env cfg ws tr) =
         filter is_game_start tr @ map (\<lambda>w. Enter (GAME (address w))) ws"
    using one by simp
qed

theorem falsy_game_count_runs_one_game_per_wallet_witness:
  "game_enabled default_count_cfg
   \<and> games_per_wallet default_count_cfg = None
   \<and> gamesPerWallet default_count_cfg = 1
   \<and> filter is_game_start (run_cycle sample_env default_count_cfg [sample_wallet, second_wallet] []) =
       [Enter (GAME (address sample_wallet)), Enter (GAME (address second_wallet))]"
  using falsy_game_count_runs_one_game_per_wallet
          [of default_count_cfg sample_env "[sample_wallet, second_wallet]" "[]"]
  by (simp add: default_count_cfg_def sample_cfg_def)

text \<open>
  Claim C10 as stated fails in a cycle with game mode switched off: line 435 runs the
  game loop only under \<^verbatim>\<open>if (runGame)\<close>, so with a game count of 0 no game iteration is
  started for the wallet, not one.
\<close>

theorem falsy_game_count_game_mode_off_counterexample:
  "games_per_wallet games_off_cfg = Some 0
   \<and> gamesPerWallet games_off_cfg = 1
   \<and> filter is_game_start (run_cycle sample_env games_off_cfg [sample_wallet] []) = []"
proof -
  have off: "\<not> game_enabled games_off_cfg"
    by (simp add: games_off_cfg_def)
  have "games (run_cycle sample_env games_off_cfg [sample_wallet] []) = games []"
    using run_cycle_games [of "[sample_wallet]" games_off_cfg sample_env "[]"] off by auto
  then have "filter is_game_start (games (run_cycle sample_env games_off_cfg [sample_wallet] [])) = []"
    by (simp add: games_def)
  then show ?thesis
    by (simp add: filter_start_games games_off_cfg_def gamesPerWallet_def)
qed

end
